theory Spec2Isabelle
  imports
    Main
    "HOL-Library.AList"
    "HOL-Library.Sublist"
    "HOL-Library.Char_ord"
    "HOL-Library.List_Lexorder"
begin

section \<open>Python values, dictionaries and exceptions\<close>

text \<open>
  The plugin system passes JSON-like values around: keyword arguments of an operation,
  result payloads, widget descriptors. A Python \<open>dict\<close> keeps its keys in insertion
  order and assigning to a key that is already present keeps the key's position; this is
  an association list with \<^const>\<open>AList.update\<close> for \<open>d[k] = v\<close>,
  \<^const>\<open>map_of\<close> for lookup, \<open>map fst\<close> for \<open>d.keys()\<close> and
  \<open>map snd\<close> for \<open>d.values()\<close>. Floating point numbers do not occur in any
  statement below and are left out of the value type.
\<close>

datatype pyval =
    VNone
  | VBool bool
  | VInt int
  | VStr string
  | VList "pyval list"
  | VDict "(string \<times> pyval) list"

type_synonym pydict = "(string \<times> pyval) list"

text \<open>
  An exception raised by the environment (an import, a constructor, a plugin body) is its
  class name and its \<open>str(e)\<close>. Only exceptions deriving from \<open>Exception\<close> are
  modelled; interpreter-exit signals (\<open>KeyboardInterrupt\<close>, \<open>SystemExit\<close>) are not.
\<close>

datatype pyexc = PyExc string string

fun exc_str :: "pyexc \<Rightarrow> string" where
  "exc_str (PyExc cls msg) = msg"

text \<open>
  What a call can raise. The first four are raised by Python itself while it binds the
  arguments of a call or looks up a method; their message texts are never read by the
  code under study, so they are kept as structured data: \<open>TypeError\<close> "got multiple
  values for argument k", \<open>TypeError\<close> "got an unexpected keyword argument k",
  \<open>TypeError\<close> "missing required positional arguments ks", and \<open>AttributeError\<close>
  "object has no attribute a".
\<close>

datatype call_error =
    MultipleValues string
  | UnexpectedKeyword string
  | MissingArguments "string list"
  | NoAttribute string
  | Raised pyexc

section \<open>The plugin contract (\<open>PluginBase\<close>)\<close>

text \<open>
  \<open>get_functions\<close> returns a list of dict literals; every declaration in the repository
  holds the keys \<open>name\<close>, \<open>description\<close> and \<open>parameters\<close>, and the manager
  reads \<open>func_info['name']\<close> only, so a declaration is a record of these three. A
  declaration without the key \<open>name\<close>, on which \<open>func_info['name']\<close> raises
  \<open>KeyError\<close>, or with a name that is not a string, is outside the model.
\<close>

record func_decl =
  decl_name :: string
  decl_description :: string
  decl_parameters :: pyval

text \<open>
  A live plugin instance is the bundle of its five methods. \<open>get_name\<close>,
  \<open>get_description\<close>, \<open>get_functions\<close> and \<open>get_widget_info\<close> take no argument
  and, in every plugin of the repository, return a constant of the instance, so they are
  fields. \<open>execute_function(function_name, **kwargs)\<close> takes whatever Python object is
  passed as the name (the annotation \<open>str\<close> is not enforced) and the keyword arguments;
  awaiting it yields a payload or raises.
\<close>

record plugin =
  get_name :: string
  get_description :: string
  get_functions :: "func_decl list"
  execute_function :: "pyval \<Rightarrow> pydict \<Rightarrow> call_error + pyval"
  plugin_get_widget_info :: "pydict option"

section \<open>The plugin manager\<close>

text \<open>
  \<open>PluginManager\<close> holds \<open>self.plugins\<close>; what \<open>load_plugins\<close> prints is kept as
  the list of printed lines.
\<close>

record manager =
  plugins :: "(string \<times> plugin) list"
  printed :: "string list"

definition PluginManager_init :: manager where
  "PluginManager_init = \<lparr>plugins = [], printed = []\<rparr>"

subsection \<open>The environment of a load\<close>

text \<open>
  A member of an imported module, as far as the loader's guard
  \<open>inspect.isclass(obj) and issubclass(obj, PluginBase) and obj != PluginBase\<close> can tell
  members apart: something that is not a class, the contract class \<open>PluginBase\<close> itself
  (every plugin module imports it), a class that does not derive from it, or a proper
  subclass together with what calling its constructor does.
\<close>

datatype pyobj =
    NonClass
  | PluginBase
  | OtherClass
  | PluginSubclass "pyexc + plugin"

fun isclass :: "pyobj \<Rightarrow> bool" where
  "isclass NonClass = False"
| "isclass PluginBase = True"
| "isclass OtherClass = True"
| "isclass (PluginSubclass c) = True"

fun issubclass_PluginBase :: "pyobj \<Rightarrow> bool" where
  "issubclass_PluginBase PluginBase = True"
| "issubclass_PluginBase (PluginSubclass c) = True"
| "issubclass_PluginBase NonClass = False"
| "issubclass_PluginBase OtherClass = False"

text \<open>
  \<open>obj()\<close>. The loader calls it under its guard only, that is on a
  \<^const>\<open>PluginSubclass\<close>; the other equations make the function total
  (\<open>PluginBase\<close> is abstract and cannot be instantiated).
\<close>

fun instantiate :: "pyobj \<Rightarrow> pyexc + plugin" where
  "instantiate (PluginSubclass c) = c"
| "instantiate PluginBase = Inl (PyExc ''TypeError'' ''Can't instantiate abstract class PluginBase'')"
| "instantiate OtherClass = Inl (PyExc ''TypeError'' ''not a plugin class'')"
| "instantiate NonClass = Inl (PyExc ''TypeError'' ''object is not callable'')"

text \<open>
  A module is its namespace, member name to object. \<open>inspect.getmembers\<close> returns the
  (name, object) pairs sorted by name; Python compares strings code point by code point,
  which is the lexicographic order on \<^typ>\<open>string\<close>.
\<close>

type_synonym pymodule = "(string \<times> pyobj) list"

definition getmembers :: "pymodule \<Rightarrow> (string \<times> pyobj) list" where
  "getmembers module = sort_key fst module"

text \<open>
  The file system and the import machinery: \<open>os.listdir(self.plugin_dir)\<close> and
  \<open>importlib.import_module\<close>, each of which returns or raises.
\<close>

record env =
  listdir :: "pyexc + string list"
  import_module :: "string \<Rightarrow> pyexc + pymodule"

subsection \<open>\<open>discover_plugins\<close>\<close>

definition discover_plugins :: "env \<Rightarrow> pyexc + string list" where
  "discover_plugins env =
     (case listdir env of
        Inl e \<Rightarrow> Inl e
      | Inr listing \<Rightarrow>
          Inr (map (\<lambda>filename. take (length filename - 3) filename)
                 (filter (\<lambda>filename. suffix ''.py'' filename \<and> \<not> prefix ''__'' filename)
                    listing)))"

subsection \<open>\<open>load_plugins\<close>\<close>

text \<open>
  The inner \<open>for name, obj in inspect.getmembers(module)\<close>: the first member passing the
  guard is instantiated, stored under its own name and reported, and \<open>break\<close> ends the
  loop. An exception of the constructor leaves the loop (\<open>Inl\<close>); nothing has been
  written to the manager before it.
\<close>

fun load_members :: "manager \<Rightarrow> (string \<times> pyobj) list \<Rightarrow> pyexc + manager" where
  "load_members self [] = Inr self"
| "load_members self ((name, obj) # members) =
     (if isclass obj \<and> issubclass_PluginBase obj \<and> obj \<noteq> PluginBase then
        (case instantiate obj of
           Inl e \<Rightarrow> Inl e
         | Inr plugin_instance \<Rightarrow>
             Inr (self\<lparr>plugins := AList.update (get_name plugin_instance) plugin_instance (plugins self),
                       printed := printed self @ [''Loaded plugin: '' @ get_name plugin_instance]\<rparr>))
      else load_members self members)"

text \<open>
  One pass of the outer loop: the \<open>try\<close> block around the import and the member loop,
  and the \<open>except Exception as e\<close> that prints the candidate and the cause.
\<close>

definition load_plugin :: "env \<Rightarrow> manager \<Rightarrow> string \<Rightarrow> manager" where
  "load_plugin env self plugin_name =
     (case (case import_module env (''plugins.'' @ plugin_name) of
              Inl e \<Rightarrow> Inl e
            | Inr module \<Rightarrow> load_members self (getmembers module)) of
        Inr self' \<Rightarrow> self'
      | Inl e \<Rightarrow>
          self\<lparr>printed := printed self @
                  [''Failed to load plugin '' @ plugin_name @ '': '' @ exc_str e]\<rparr>)"

text \<open>
  \<open>load_plugins\<close>: discovery is outside every \<open>try\<close>, so its exception leaves the
  method; otherwise the candidates are loaded in order.
\<close>

definition load_plugins :: "env \<Rightarrow> manager \<Rightarrow> pyexc + manager" where
  "load_plugins env self =
     (case discover_plugins env of
        Inl e \<Rightarrow> Inl e
      | Inr plugin_names \<Rightarrow> Inr (foldl (load_plugin env) self plugin_names))"

subsection \<open>\<open>get_all_functions\<close>, \<open>get_function_mapping\<close>, \<open>get_widget_info\<close>\<close>

definition get_all_functions :: "manager \<Rightarrow> func_decl list" where
  "get_all_functions self =
     foldl (\<lambda>functions plugin. functions @ get_functions plugin) [] (map snd (plugins self))"

text \<open>
  An entry of the mapping is
  \<open>lambda plugin=plugin, func_name=func_name, **kwargs: plugin.execute_function(func_name, **kwargs)\<close>:
  a function whose two named parameters default to the pair of the loop pass that built
  it. The entry is that pair.
\<close>

record bound_call =
  bound_plugin :: plugin
  bound_func_name :: string

definition get_function_mapping :: "manager \<Rightarrow> (string \<times> bound_call) list" where
  "get_function_mapping self =
     foldl (\<lambda>mapping plugin.
              foldl (\<lambda>mapping func_info.
                       AList.update (decl_name func_info)
                         \<lparr>bound_plugin = plugin, bound_func_name = decl_name func_info\<rparr> mapping)
                mapping (get_functions plugin))
       [] (map snd (plugins self))"

text \<open>
  Calling an entry as \<open>entry(**kwargs)\<close>. Python binds a keyword named \<open>plugin\<close> or
  \<open>func_name\<close> to the lambda's parameter of that name, replacing the default; every
  other keyword goes to \<open>**kwargs\<close>. The body then looks up \<open>execute_function\<close> on
  \<open>plugin\<close> (a JSON value has no such attribute) and calls it.
\<close>

definition call_bound :: "bound_call \<Rightarrow> pydict \<Rightarrow> call_error + pyval" where
  "call_bound entry kwargs =
     (let func_name = (case map_of kwargs ''func_name'' of
                         Some v \<Rightarrow> v
                       | None \<Rightarrow> VStr (bound_func_name entry));
          rest = filter (\<lambda>(k, v). k \<noteq> ''plugin'' \<and> k \<noteq> ''func_name'') kwargs
      in case map_of kwargs ''plugin'' of
           Some v \<Rightarrow> Inl (NoAttribute ''execute_function'')
         | None \<Rightarrow> execute_function (bound_plugin entry) func_name rest)"

text \<open>
  \<open>if widget_info:\<close> is Python truthiness: \<open>None\<close> and the empty dict are false.
\<close>

definition get_widget_info :: "manager \<Rightarrow> (string \<times> pydict) list" where
  "get_widget_info self =
     foldl (\<lambda>widgets plugin.
              (case plugin_get_widget_info plugin of
                 None \<Rightarrow> widgets
               | Some widget_info \<Rightarrow>
                   if widget_info \<noteq> [] then AList.update (get_name plugin) widget_info widgets
                   else widgets))
       [] (map snd (plugins self))"

section \<open>The plugins of the repository\<close>

subsection \<open>Binding keyword arguments\<close>

text \<open>
  Every \<open>execute_function\<close> of the repository forwards as
  \<open>return await self._method(**kwargs)\<close>. Python binds the keywords to the method's
  parameters before the method body (and its \<open>try\<close>) is entered. A signature lists the
  parameters already bound positionally at the call, the parameters without a default,
  those with one, and whether the method ends in \<open>**kwargs\<close>.
\<close>

record signature =
  positional :: "string list"
  required :: "string list"
  optional :: "string list"
  var_keyword :: bool

text \<open>
  Binding goes through the keywords in order and raises at the first one that names a
  parameter bound positionally or, when there is no \<open>**kwargs\<close>, names no parameter;
  then it raises if a parameter without default got no value. The default values
  themselves belong to the method body.
\<close>

definition bind_arguments :: "signature \<Rightarrow> pydict \<Rightarrow> call_error + pydict" where
  "bind_arguments sg kwargs =
     (case find (\<lambda>k. k \<in> set (positional sg) \<or>
                     (k \<notin> set (required sg @ optional sg) \<and> \<not> var_keyword sg))
             (map fst kwargs) of
        Some k \<Rightarrow> Inl (if k \<in> set (positional sg) then MultipleValues k else UnexpectedKeyword k)
      | None \<Rightarrow>
          (case filter (\<lambda>p. p \<notin> set (map fst kwargs)) (required sg) of
             [] \<Rightarrow> Inr kwargs
           | p # ps \<Rightarrow> Inl (MissingArguments (p # ps))))"

text \<open>\<open>async def execute_function(self, function_name: str, **kwargs)\<close>, called as
  \<open>plugin.execute_function(func_name, **kwargs)\<close>.\<close>

definition execute_function_signature :: signature where
  "execute_function_signature =
     \<lparr>positional = [''self'', ''function_name''], required = [], optional = [], var_keyword = True\<rparr>"

text \<open>\<open>async def _method(self, required..., optional=default..., [**kwargs])\<close>, called as
  \<open>self._method(**kwargs)\<close>.\<close>

definition method_signature :: "string list \<Rightarrow> string list \<Rightarrow> bool \<Rightarrow> signature" where
  "method_signature req opt varkw =
     \<lparr>positional = [''self''], required = req, optional = opt, var_keyword = varkw\<rparr>"

definition call_method ::
  "signature \<Rightarrow> (pydict \<Rightarrow> call_error + pyval) \<Rightarrow> pydict \<Rightarrow> call_error + pyval" where
  "call_method sg body kwargs =
     (case bind_arguments sg kwargs of
        Inl e \<Rightarrow> Inl e
      | Inr args \<Rightarrow> body args)"

definition unknown_function :: "string \<Rightarrow> pyval" where
  "unknown_function function_name = VDict [(''error'', VStr (''Unknown function: '' @ function_name))]"

subsection \<open>The five \<open>execute_function\<close> methods\<close>

text \<open>
  The bodies of the private methods (translation, QR rendering, model inference, file
  access) are the parameter \<open>body\<close>, by method name: what the method does with its bound
  arguments. The dispatch on \<open>function_name\<close> and the signatures are the source's. With
  each plugin come the \<open>name\<close> entries of its \<open>get_functions()\<close>, in order.
\<close>

definition TranslationPlugin_function_names :: "string list" where
  "TranslationPlugin_function_names =
     [''translate_text'', ''detect_language'', ''get_supported_languages'', ''translate_batch'']"

definition TranslationPlugin_execute_function ::
  "(string \<Rightarrow> pydict \<Rightarrow> call_error + pyval) \<Rightarrow> string \<Rightarrow> pydict \<Rightarrow> call_error + pyval" where
  "TranslationPlugin_execute_function body function_name kwargs =
     (case bind_arguments execute_function_signature kwargs of
        Inl e \<Rightarrow> Inl e
      | Inr kwargs \<Rightarrow>
          if function_name = ''translate_text'' then
            call_method (method_signature [''text'', ''target_language''] [''source_language''] False)
              (body ''_translate_text'') kwargs
          else if function_name = ''detect_language'' then
            call_method (method_signature [''text''] [] False) (body ''_detect_language'') kwargs
          else if function_name = ''get_supported_languages'' then
            call_method (method_signature [] [] False) (body ''_get_supported_languages'') kwargs
          else if function_name = ''translate_batch'' then
            call_method (method_signature [''texts'', ''target_languages''] [''source_language''] False)
              (body ''_translate_batch'') kwargs
          else Inr (unknown_function function_name))"

definition QRCodeGeneratorPlugin_function_names :: "string list" where
  "QRCodeGeneratorPlugin_function_names =
     [''generate_qr_code'', ''generate_bulk_qr_codes'', ''generate_wifi_qr'', ''generate_vcard_qr'',
      ''list_generated_qr_codes'']"

definition QRCodeGeneratorPlugin_execute_function ::
  "(string \<Rightarrow> pydict \<Rightarrow> call_error + pyval) \<Rightarrow> string \<Rightarrow> pydict \<Rightarrow> call_error + pyval" where
  "QRCodeGeneratorPlugin_execute_function body function_name kwargs =
     (case bind_arguments execute_function_signature kwargs of
        Inl e \<Rightarrow> Inl e
      | Inr kwargs \<Rightarrow>
          if function_name = ''generate_qr_code'' then
            call_method
              (method_signature [''data'', ''qr_type'']
                 [''size'', ''foreground_color'', ''background_color'', ''logo_path'', ''border''] False)
              (body ''_generate_qr_code'') kwargs
          else if function_name = ''generate_bulk_qr_codes'' then
            call_method
              (method_signature [''data_list'', ''qr_type'']
                 [''size'', ''foreground_color'', ''background_color''] False)
              (body ''_generate_bulk_qr_codes'') kwargs
          else if function_name = ''generate_wifi_qr'' then
            call_method
              (method_signature [''ssid''] [''password'', ''encryption'', ''hidden'', ''size''] False)
              (body ''_generate_wifi_qr'') kwargs
          else if function_name = ''generate_vcard_qr'' then
            call_method
              (method_signature [''name'']
                 [''phone'', ''email'', ''company'', ''title'', ''website'', ''address'', ''size''] False)
              (body ''_generate_vcard_qr'') kwargs
          else if function_name = ''list_generated_qr_codes'' then
            call_method (method_signature [] [] False) (body ''_list_generated_qr_codes'') kwargs
          else Inr (unknown_function function_name))"

definition EngineeringCalculatorsPlugin_function_names :: "string list" where
  "EngineeringCalculatorsPlugin_function_names =
     [''electrical_calculator'', ''mechanical_calculator'', ''structural_calculator'']"

definition EngineeringCalculatorsPlugin_execute_function ::
  "(string \<Rightarrow> pydict \<Rightarrow> call_error + pyval) \<Rightarrow> string \<Rightarrow> pydict \<Rightarrow> call_error + pyval" where
  "EngineeringCalculatorsPlugin_execute_function body function_name kwargs =
     (case bind_arguments execute_function_signature kwargs of
        Inl e \<Rightarrow> Inl e
      | Inr kwargs \<Rightarrow>
          if function_name = ''electrical_calculator'' then
            call_method (method_signature [''calculation_type''] [] True)
              (body ''_electrical_calculator'') kwargs
          else if function_name = ''mechanical_calculator'' then
            call_method (method_signature [''calculation_type''] [] True)
              (body ''_mechanical_calculator'') kwargs
          else if function_name = ''structural_calculator'' then
            call_method (method_signature [''calculation_type''] [] True)
              (body ''_structural_calculator'') kwargs
          else Inr (unknown_function function_name))"

definition DocumentAnalysisPlugin_function_names :: "string list" where
  "DocumentAnalysisPlugin_function_names =
     [''analyze_document'', ''list_documents'', ''delete_document'']"

definition DocumentAnalysisPlugin_execute_function ::
  "(string \<Rightarrow> pydict \<Rightarrow> call_error + pyval) \<Rightarrow> string \<Rightarrow> pydict \<Rightarrow> call_error + pyval" where
  "DocumentAnalysisPlugin_execute_function body function_name kwargs =
     (case bind_arguments execute_function_signature kwargs of
        Inl e \<Rightarrow> Inl e
      | Inr kwargs \<Rightarrow>
          if function_name = ''analyze_document'' then
            call_method
              (method_signature [''file_data'', ''filename'', ''analysis_type''] [''question''] False)
              (body ''_analyze_document'') kwargs
          else if function_name = ''list_documents'' then
            call_method (method_signature [] [] False) (body ''_list_documents'') kwargs
          else if function_name = ''delete_document'' then
            call_method (method_signature [''document_id''] [] False) (body ''_delete_document'') kwargs
          else Inr (unknown_function function_name))"

definition ImageGenerationPlugin_function_names :: "string list" where
  "ImageGenerationPlugin_function_names =
     [''generate_image'', ''list_generated_images'', ''delete_generated_image'']"

definition ImageGenerationPlugin_execute_function ::
  "(string \<Rightarrow> pydict \<Rightarrow> call_error + pyval) \<Rightarrow> string \<Rightarrow> pydict \<Rightarrow> call_error + pyval" where
  "ImageGenerationPlugin_execute_function body function_name kwargs =
     (case bind_arguments execute_function_signature kwargs of
        Inl e \<Rightarrow> Inl e
      | Inr kwargs \<Rightarrow>
          if function_name = ''generate_image'' then
            call_method
              (method_signature [''prompt'']
                 [''negative_prompt'', ''width'', ''height'', ''num_inference_steps'', ''guidance_scale'']
                 False)
              (body ''_generate_image'') kwargs
          else if function_name = ''list_generated_images'' then
            call_method (method_signature [] [] False) (body ''_list_generated_images'') kwargs
          else if function_name = ''delete_generated_image'' then
            call_method (method_signature [''image_id''] [] False)
              (body ''_delete_generated_image'') kwargs
          else Inr (unknown_function function_name))"

section \<open>Vocabulary of the statements\<close>

text \<open>
  The words the specification uses for the loader, written over the definitions above:
  a conforming type is a member that passes the loader's guard; registering is the
  assignment \<open>self.plugins[plugin_instance.get_name()] = plugin_instance\<close>; a candidate
  ends \<open>Registered\<close> or \<open>LoadFailed\<close>, or its module holds no conforming type.
\<close>

definition conforming :: "pyobj \<Rightarrow> bool" where
  "conforming obj \<longleftrightarrow> isclass obj \<and> issubclass_PluginBase obj \<and> obj \<noteq> PluginBase"

definition register :: "(string \<times> plugin) list \<Rightarrow> plugin \<Rightarrow> (string \<times> plugin) list" where
  "register reg p = AList.update (get_name p) p reg"

datatype outcome =
    Registered plugin
  | LoadFailed pyexc
  | NoConformingType

definition candidate_outcome :: "env \<Rightarrow> string \<Rightarrow> outcome" where
  "candidate_outcome env plugin_name =
     (case import_module env (''plugins.'' @ plugin_name) of
        Inl e \<Rightarrow> LoadFailed e
      | Inr module \<Rightarrow>
          (case find (\<lambda>(name, obj). conforming obj) (getmembers module) of
             None \<Rightarrow> NoConformingType
           | Some (name, obj) \<Rightarrow>
               (case instantiate obj of
                  Inl e \<Rightarrow> LoadFailed e
                | Inr p \<Rightarrow> Registered p)))"

fun loaded :: "outcome \<Rightarrow> plugin list" where
  "loaded (Registered p) = [p]"
| "loaded (LoadFailed e) = []"
| "loaded NoConformingType = []"

fun logged :: "string \<Rightarrow> outcome \<Rightarrow> string list" where
  "logged plugin_name (Registered p) = [''Loaded plugin: '' @ get_name p]"
| "logged plugin_name (LoadFailed e) =
     [''Failed to load plugin '' @ plugin_name @ '': '' @ exc_str e]"
| "logged plugin_name NoConformingType = []"

text \<open>The capabilities that loaded successfully, in candidate order, and the lines a load
  prints.\<close>

definition successes :: "env \<Rightarrow> string list \<Rightarrow> plugin list" where
  "successes env plugin_names =
     concat (map (\<lambda>plugin_name. loaded (candidate_outcome env plugin_name)) plugin_names)"

definition load_log :: "env \<Rightarrow> string list \<Rightarrow> string list" where
  "load_log env plugin_names =
     concat (map (\<lambda>plugin_name. logged plugin_name (candidate_outcome env plugin_name)) plugin_names)"

text \<open>
  A registry as a Python dict built by the loader: no key twice, and every instance
  stored under the name it reports.
\<close>

definition registry_inv :: "(string \<times> plugin) list \<Rightarrow> bool" where
  "registry_inv reg \<longleftrightarrow> distinct (map fst reg) \<and> (\<forall>(k, p) \<in> set reg. get_name p = k)"

text \<open>
  A sequence of \<open>load_plugins\<close> calls on a fresh manager, each in the environment of its
  moment; a call that raises (discovery failed) has changed nothing.
\<close>

definition run_load :: "manager \<Rightarrow> env \<Rightarrow> manager" where
  "run_load self env = (case load_plugins env self of Inl e \<Rightarrow> self | Inr self' \<Rightarrow> self')"

definition after_loads :: "env list \<Rightarrow> manager" where
  "after_loads envs = foldl run_load PluginManager_init envs"

text \<open>
  The descriptor a capability presents: what \<open>get_widget_info()\<close> returns when that is a
  mapping with entries (the specification's descriptor has three fields); \<open>None\<close>, and
  the empty mapping, present nothing.
\<close>

definition descriptor_of :: "plugin \<Rightarrow> pydict option" where
  "descriptor_of p =
     (case plugin_get_widget_info p of
        None \<Rightarrow> None
      | Some widget_info \<Rightarrow> if widget_info = [] then None else Some widget_info)"

definition unknown_operation :: "string \<Rightarrow> pyval" where
  "unknown_operation name = VDict [(''error'', VStr (''unknown operation: '' @ name))]"

text \<open>
  Modelled from the spec: \<open>dispatch(name, arguments)\<close>. The repository's files build the
  mapping (\<open>get_function_mapping\<close>) but hold no function that looks a name up in it; the
  specification's dispatcher "looks up the entry; if absent, returns a structured failure
  \<open>{error: "unknown operation: <name>"}\<close> without raising; if present, forwards". The
  lookup is in the mapping of the source, the forwarding is the call of the source's entry.
\<close>

definition dispatch :: "manager \<Rightarrow> string \<Rightarrow> pydict \<Rightarrow> call_error + pyval" where
  "dispatch self name arguments =
     (case map_of (get_function_mapping self) name of
        None \<Rightarrow> Inr (unknown_operation name)
      | Some entry \<Rightarrow> call_bound entry arguments)"

text \<open>
  The (plugin, declaration) pairs in the order the two loops of \<open>get_function_mapping\<close>
  visit them.
\<close>

definition bindings :: "manager \<Rightarrow> (plugin \<times> func_decl) list" where
  "bindings self = concat (map (\<lambda>(k, p). map (Pair p) (get_functions p)) (plugins self))"

section \<open>Example capabilities and an example plugin directory\<close>

text \<open>
  Test doubles in the shape of the specification's scenarios. A capability's
  \<open>execute_function\<close> echoes who was called, under which operation name and with which
  keyword arguments. Capability A declares \<open>foo\<close>; B declares \<open>bar\<close> and \<open>foo\<close> and is
  the only one with a widget; a later capability reports the identity \<open>A\<close> as well.
\<close>

definition echo :: "string \<Rightarrow> pyval \<Rightarrow> pydict \<Rightarrow> call_error + pyval" where
  "echo owner function_name kwargs =
     Inr (VDict [(''plugin'', VStr owner), (''function_name'', function_name),
                 (''kwargs'', VDict kwargs)])"

definition operation :: "string \<Rightarrow> string \<Rightarrow> func_decl" where
  "operation n d =
     \<lparr>decl_name = n, decl_description = d,
      decl_parameters =
        VDict [(''type'', VStr ''object''), (''properties'', VDict []), (''required'', VList [])]\<rparr>"

definition capability_A :: plugin where
  "capability_A =
     \<lparr>get_name = ''A'', get_description = ''capability A'',
      get_functions = [operation ''foo'' ''foo of A''],
      execute_function = echo ''A'', plugin_get_widget_info = None\<rparr>"

definition capability_B :: plugin where
  "capability_B =
     \<lparr>get_name = ''B'', get_description = ''capability B'',
      get_functions = [operation ''bar'' ''bar of B'', operation ''foo'' ''foo of B''],
      execute_function = echo ''B'',
      plugin_get_widget_info =
        Some [(''component_name'', VStr ''BWidget''), (''css_file'', VStr ''BWidget.css''),
              (''socket_events'', VList [VStr ''b_update''])]\<rparr>"

definition capability_C :: plugin where
  "capability_C =
     \<lparr>get_name = ''C'', get_description = ''capability C'',
      get_functions = [],
      execute_function = echo ''C'', plugin_get_widget_info = None\<rparr>"

definition capability_A_later :: plugin where
  "capability_A_later =
     \<lparr>get_name = ''A'', get_description = ''another capability named A'',
      get_functions = [operation ''baz'' ''baz of the later A''],
      execute_function = echo ''A (later)'', plugin_get_widget_info = None\<rparr>"

definition example_manager :: manager where
  "example_manager =
     \<lparr>plugins = [(''A'', capability_A), (''B'', capability_B), (''C'', capability_C)],
      printed = []\<rparr>"

text \<open>
  A plugin directory with seven candidates: \<open>alpha\<close>, \<open>beta\<close>, \<open>later\<close> and \<open>gamma\<close>
  load; \<open>broken\<close> cannot be imported; the constructor of the first plugin class of
  \<open>ctor\<close> raises; \<open>helpers\<close> holds no plugin class. Module \<open>beta\<close> holds two plugin
  classes, \<open>Zulu\<close> defined before \<open>Beta\<close>.
\<close>

definition example_env :: env where
  "example_env =
     \<lparr>listdir = Inr [''__init__.py'', ''alpha.py'', ''beta.py'', ''broken.py'', ''ctor.py'',
                     ''helpers.py'', ''notes.txt'', ''later.py'', ''gamma.py''],
      import_module = (\<lambda>m.
        if m = ''plugins.alpha'' then
          Inr [(''os'', NonClass), (''PluginBase'', PluginBase),
               (''AlphaPlugin'', PluginSubclass (Inr capability_A))]
        else if m = ''plugins.beta'' then
          Inr [(''PluginBase'', PluginBase), (''Zulu'', PluginSubclass (Inr capability_C)),
               (''Helper'', OtherClass), (''Beta'', PluginSubclass (Inr capability_B))]
        else if m = ''plugins.ctor'' then
          Inr [(''PluginBase'', PluginBase), (''Working'', PluginSubclass (Inr capability_C)),
               (''Failing'', PluginSubclass (Inl (PyExc ''RuntimeError'' ''model not found'')))]
        else if m = ''plugins.helpers'' then
          Inr [(''PluginBase'', PluginBase), (''Helper'', OtherClass), (''util'', NonClass)]
        else if m = ''plugins.later'' then
          Inr [(''PluginBase'', PluginBase), (''Later'', PluginSubclass (Inr capability_A_later))]
        else if m = ''plugins.gamma'' then
          Inr [(''PluginBase'', PluginBase), (''Gamma'', PluginSubclass (Inr capability_C))]
        else Inl (PyExc ''ModuleNotFoundError'' (''No module named '' @ m)))\<rparr>"

definition example_candidates :: "string list" where
  "example_candidates = [''alpha'', ''beta'', ''broken'', ''ctor'', ''helpers'', ''later'', ''gamma'']"

text \<open>
  The same modules behind a directory of three candidates, one of which throws during
  construction.
\<close>

definition three_candidates_env :: env where
  "three_candidates_env = example_env\<lparr>listdir := Inr [''alpha.py'', ''ctor.py'', ''beta.py'']\<rparr>"

section \<open>Association lists under repeated assignment\<close>

text \<open>
  Every loop of the manager assigns into a dict, pass after pass. The facts below say what
  such a loop leaves behind: the last assignment to a key is the one found, keys stay
  distinct, and an assignment to a fresh key appends.
\<close>

lemma find_append_split:
  "find P (xs @ ys) = (case find P xs of None \<Rightarrow> find P ys | Some x \<Rightarrow> Some x)"
  by (induction xs) simp_all

lemma find_Some_member: "find P xs = Some x \<Longrightarrow> x \<in> set xs \<and> P x"
  by (induction xs) (auto split: if_splits)

lemma update_fresh: "k \<notin> fst ` set al \<Longrightarrow> AList.update k v al = al @ [(k, v)]"
  by (induction al) auto

lemma set_update_subset: "set (AList.update k v al) \<subseteq> insert (k, v) (set al)"
  by (induction al) auto

lemma map_of_foldl_update:
  "map_of (foldl (\<lambda>m x. AList.update (kf x) (vf x) m) m0 xs) k =
     (case find (\<lambda>x. kf x = k) (rev xs) of
        None \<Rightarrow> map_of m0 k
      | Some x \<Rightarrow> Some (vf x))"
proof (induction xs arbitrary: m0)
  case Nil
  show ?case by simp
next
  case (Cons x xs)
  show ?case
    by (simp add: Cons.IH find_append_split update_conv' split: option.splits)
qed

lemma map_filter_of_map:
  "List.map_filter f (map g xs) = List.map_filter (\<lambda>x. f (g x)) xs"
  by (induction xs) (simp_all split: option.splits)

lemma length_map_filter:
  "length (List.map_filter f xs) = length (filter (\<lambda>x. f x \<noteq> None) xs)"
  by (induction xs) (simp_all split: option.splits)

section \<open>The loader, candidate by candidate\<close>

text \<open>
  The member loop stops at the first conforming member: its result is that member's
  instantiation, or the unchanged manager when no member conforms.
\<close>

lemma load_members_find:
  "load_members self members =
     (case find (\<lambda>(name, obj). conforming obj) members of
        None \<Rightarrow> Inr self
      | Some (name, obj) \<Rightarrow>
          (case instantiate obj of
             Inl e \<Rightarrow> Inl e
           | Inr p \<Rightarrow> Inr (self\<lparr>plugins := register (plugins self) p,
                              printed := printed self @ [''Loaded plugin: '' @ get_name p]\<rparr>)))"
proof (induction members)
  case Nil
  show ?case by simp
next
  case (Cons m members)
  obtain name obj where m: "m = (name, obj)" by (cases m)
  show ?case
  proof (cases "conforming obj")
    case True
    then show ?thesis
      by (simp add: m conforming_def register_def split: sum.splits)
  next
    case False
    then have "load_members self (m # members) = load_members self members"
      by (auto simp: m conforming_def)
    with False show ?thesis
      by (simp add: m Cons.IH)
  qed
qed

text \<open>One pass of the candidate loop does what the candidate's outcome says.\<close>

lemma load_plugin_outcome:
  "load_plugin env self plugin_name =
     self\<lparr>plugins := foldl register (plugins self) (loaded (candidate_outcome env plugin_name)),
          printed := printed self @ logged plugin_name (candidate_outcome env plugin_name)\<rparr>"
  by (simp add: load_plugin_def candidate_outcome_def load_members_find
           split: sum.splits option.splits prod.splits)

lemma foldl_load_plugin:
  "foldl (load_plugin env) self plugin_names =
     self\<lparr>plugins := foldl register (plugins self) (successes env plugin_names),
          printed := printed self @ load_log env plugin_names\<rparr>"
proof (induction plugin_names arbitrary: self)
  case Nil
  show ?case by (simp add: successes_def load_log_def)
next
  case (Cons n ns)
  have "foldl (load_plugin env) self (n # ns) = foldl (load_plugin env) (load_plugin env self n) ns"
    by simp
  also have "\<dots> = (load_plugin env self n)
      \<lparr>plugins := foldl register (plugins (load_plugin env self n)) (successes env ns),
       printed := printed (load_plugin env self n) @ load_log env ns\<rparr>"
    by (rule Cons.IH)
  also have "\<dots> = self\<lparr>plugins := foldl register (plugins self) (successes env (n # ns)),
          printed := printed self @ load_log env (n # ns)\<rparr>"
    by (simp add: load_plugin_outcome successes_def load_log_def)
  finally show ?case .
qed

lemma load_plugins_result:
  "discover_plugins env = Inr plugin_names \<Longrightarrow>
   load_plugins env self =
     Inr (self\<lparr>plugins := foldl register (plugins self) (successes env plugin_names),
               printed := printed self @ load_log env plugin_names\<rparr>)"
  by (simp add: load_plugins_def foldl_load_plugin)

subsection \<open>The registry invariant\<close>

lemma registry_inv_register: "registry_inv reg \<Longrightarrow> registry_inv (register reg p)"
proof -
  assume inv: "registry_inv reg"
  have "\<And>k q. (k, q) \<in> set (register reg p) \<Longrightarrow> get_name q = k"
  proof -
    fix k q assume "(k, q) \<in> set (register reg p)"
    then have "(k, q) = (get_name p, p) \<or> (k, q) \<in> set reg"
      using set_update_subset [of "get_name p" p reg] by (auto simp: register_def)
    then show "get_name q = k"
      using inv by (auto simp: registry_inv_def)
  qed
  moreover have "distinct (map fst (register reg p))"
    using inv by (simp add: registry_inv_def register_def distinct_update)
  ultimately show ?thesis
    by (auto simp: registry_inv_def)
qed

lemma registry_inv_foldl_register:
  "registry_inv reg \<Longrightarrow> registry_inv (foldl register reg ps)"
  by (induction ps arbitrary: reg) (simp_all add: registry_inv_register)

lemma registry_inv_run_load:
  "registry_inv (plugins self) \<Longrightarrow> registry_inv (plugins (run_load self env))"
proof (cases "discover_plugins env")
  case (Inl e)
  assume "registry_inv (plugins self)"
  with Inl show ?thesis by (simp add: run_load_def load_plugins_def)
next
  case (Inr names)
  assume "registry_inv (plugins self)"
  with Inr show ?thesis
    by (simp add: run_load_def load_plugins_result registry_inv_foldl_register)
qed

lemma registry_inv_after_loads: "registry_inv (plugins (after_loads envs))"
proof -
  have "registry_inv (plugins self) \<Longrightarrow> registry_inv (plugins (foldl run_load self envs))" for self
    by (induction envs arbitrary: self) (simp_all add: registry_inv_run_load)
  from this [of PluginManager_init] show ?thesis
    by (simp add: after_loads_def) (simp add: PluginManager_init_def registry_inv_def)
qed

lemma registry_inv_names:
  "registry_inv reg \<Longrightarrow>
   map (\<lambda>(k, p). (get_name p, p)) reg = reg \<and> distinct (map get_name (map snd reg))"
proof (induction reg)
  case Nil
  show ?case by simp
next
  case (Cons e reg)
  obtain k q where e: "e = (k, q)" by (cases e)
  from Cons.prems have inv: "registry_inv reg" and kq: "get_name q = k"
    and fresh: "k \<notin> fst ` set reg"
    by (auto simp: registry_inv_def e)
  have "map get_name (map snd reg) = map fst reg"
    using inv by (auto simp: registry_inv_def)
  with Cons.IH [OF inv] kq fresh show ?case
    by (simp add: e)
qed

lemma registry_only_instance:
  "registry_inv reg \<Longrightarrow> map_of reg n = Some b \<Longrightarrow>
   filter (\<lambda>p. get_name p = n) (map snd reg) = [b]"
proof (induction reg)
  case Nil
  then show ?case by simp
next
  case (Cons e reg)
  obtain k q where e: "e = (k, q)" by (cases e)
  have inv: "registry_inv reg" and kq: "get_name q = k" and fresh: "k \<notin> fst ` set reg"
    using Cons.prems(1) by (auto simp: registry_inv_def e)
  show ?case
  proof (cases "k = n")
    case True
    have "get_name r \<noteq> n" if "(j, r) \<in> set reg" for j r
    proof -
      from that inv have "get_name r = j" by (auto simp: registry_inv_def)
      moreover from that have "j \<in> fst ` set reg" by force
      ultimately show ?thesis using fresh True by auto
    qed
    then have "filter (\<lambda>p. get_name p = n) (map snd reg) = []"
      by (fastforce simp: filter_empty_conv)
    with True Cons.prems(2) kq show ?thesis by (simp add: e)
  next
    case False
    with Cons.prems(2) have "map_of reg n = Some b" by (simp add: e)
    with inv have "filter (\<lambda>p. get_name p = n) (map snd reg) = [b]" by (rule Cons.IH)
    with False kq show ?thesis by (simp add: e)
  qed
qed

subsection \<open>Registering a run of instances\<close>

lemma foldl_register_fresh:
  "distinct (map get_name ps) \<Longrightarrow> set (map get_name ps) \<inter> fst ` set reg = {} \<Longrightarrow>
   foldl register reg ps = reg @ map (\<lambda>p. (get_name p, p)) ps"
proof (induction ps arbitrary: reg)
  case Nil
  show ?case by simp
next
  case (Cons p ps)
  have fresh: "get_name p \<notin> fst ` set reg"
    using Cons.prems(2) by auto
  then have step: "register reg p = reg @ [(get_name p, p)]"
    by (simp add: register_def update_fresh)
  have "foldl register (reg @ [(get_name p, p)]) ps =
          (reg @ [(get_name p, p)]) @ map (\<lambda>p. (get_name p, p)) ps"
    using Cons.prems by (intro Cons.IH) auto
  then show ?case
    by (simp add: step)
qed

lemma map_of_foldl_register:
  "map_of (foldl register reg ps) k =
     (case find (\<lambda>p. get_name p = k) (rev ps) of
        None \<Rightarrow> map_of reg k
      | Some p \<Rightarrow> Some p)"
  using map_of_foldl_update [of get_name "\<lambda>p. p" reg ps k]
  by (simp add: register_def [abs_def])

subsection \<open>Member order\<close>

lemma find_first_sorted:
  assumes "sorted (map fst xs)" and "distinct (map fst xs)"
    and "(n, c) \<in> set xs" and "P c"
    and "\<forall>(n', obj) \<in> set xs. P obj \<longrightarrow> n \<le> n'"
  shows "find (\<lambda>(name, obj). P obj) xs = Some (n, c)"
  using assms
proof (induction xs)
  case Nil
  then show ?case by simp
next
  case (Cons x xs)
  obtain m obj where x: "x = (m, obj)" by (cases x)
  show ?case
  proof (cases "(m, obj) = (n, c)")
    case True
    with Cons.prems(4) show ?thesis by (simp add: x)
  next
    case False
    with Cons.prems(3) have mem: "(n, c) \<in> set xs" by (auto simp: x)
    then have "n \<in> fst ` set xs" by force
    with Cons.prems(1,2) have "m \<le> n" and "m \<noteq> n" by (auto simp: x)
    then have "m < n" by simp
    with Cons.prems(5) have "\<not> P obj" by (auto simp: x)
    moreover have "find (\<lambda>(name, obj). P obj) xs = Some (n, c)"
      using Cons.prems mem by (intro Cons.IH) (auto simp: x)
    ultimately show ?thesis by (simp add: x)
  qed
qed

lemma getmembers_first_conforming:
  assumes "distinct (map fst module)" and "(n, cls) \<in> set module" and "conforming cls"
    and "\<forall>(n', obj) \<in> set module. conforming obj \<longrightarrow> n \<le> n'"
  shows "find (\<lambda>(name, obj). conforming obj) (getmembers module) = Some (n, cls)"
proof -
  have "distinct (map fst (getmembers module))"
    using assms(1) unfolding getmembers_def
    by (metis distinct_map distinct_sort set_sort)
  then show ?thesis
    using assms by (intro find_first_sorted) (simp_all add: getmembers_def)
qed

section \<open>The catalog, the mapping and the widgets\<close>

lemma get_all_functions_concat:
  "get_all_functions self = concat (map (\<lambda>(k, p). get_functions p) (plugins self))"
proof -
  have extend: "foldl (\<lambda>functions plugin. functions @ get_functions plugin) acc ps =
          acc @ concat (map get_functions ps)" for acc and ps :: "plugin list"
    by (induction ps arbitrary: acc) simp_all
  show ?thesis
    by (simp add: get_all_functions_def extend comp_def case_prod_unfold)
qed

text \<open>The two nested loops of \<open>get_function_mapping\<close> are one loop over the bindings.\<close>

lemma get_function_mapping_bindings:
  "get_function_mapping self =
     foldl (\<lambda>mapping pd. AList.update (decl_name (snd pd))
              \<lparr>bound_plugin = fst pd, bound_func_name = decl_name (snd pd)\<rparr> mapping)
       [] (bindings self)"
proof -
  have inner: "foldl (\<lambda>mapping func_info.
                 AList.update (decl_name func_info)
                   \<lparr>bound_plugin = plugin, bound_func_name = decl_name func_info\<rparr> mapping)
          mapping ds =
        foldl (\<lambda>mapping pd. AList.update (decl_name (snd pd))
              \<lparr>bound_plugin = fst pd, bound_func_name = decl_name (snd pd)\<rparr> mapping)
          mapping (map (Pair plugin) ds)" for plugin mapping and ds :: "func_decl list"
    by (induction ds arbitrary: mapping) simp_all
  have outer: "foldl (\<lambda>mapping plugin.
              foldl (\<lambda>mapping func_info.
                       AList.update (decl_name func_info)
                         \<lparr>bound_plugin = plugin, bound_func_name = decl_name func_info\<rparr> mapping)
                mapping (get_functions plugin))
          mapping ps =
        foldl (\<lambda>mapping pd. AList.update (decl_name (snd pd))
              \<lparr>bound_plugin = fst pd, bound_func_name = decl_name (snd pd)\<rparr> mapping)
          mapping (concat (map (\<lambda>p. map (Pair p) (get_functions p)) ps))" for mapping ps
    by (induction ps arbitrary: mapping) (simp_all add: inner)
  show ?thesis
    by (simp add: get_function_mapping_def bindings_def outer comp_def case_prod_unfold)
qed

text \<open>
  Looking a name up finds the pair of the last binding that declares it: each entry holds
  its own plugin and its own name.
\<close>

lemma function_mapping_lookup:
  "map_of (get_function_mapping self) name =
     (case find (\<lambda>pd. decl_name (snd pd) = name) (rev (bindings self)) of
        None \<Rightarrow> None
      | Some pd \<Rightarrow> Some \<lparr>bound_plugin = fst pd, bound_func_name = decl_name (snd pd)\<rparr>)"
  by (simp add: get_function_mapping_bindings map_of_foldl_update split: option.splits)

lemma call_bound_plain:
  assumes "''plugin'' \<notin> fst ` set kwargs" and "''func_name'' \<notin> fst ` set kwargs"
  shows "call_bound entry kwargs =
           execute_function (bound_plugin entry) (VStr (bound_func_name entry)) kwargs"
proof -
  have "map_of kwargs ''plugin'' = None" "map_of kwargs ''func_name'' = None"
    using assms by (simp_all add: map_of_eq_None_iff)
  moreover have "filter (\<lambda>(k, v). k \<noteq> ''plugin'' \<and> k \<noteq> ''func_name'') kwargs = kwargs"
    using assms by (intro filter_True) force
  ultimately show ?thesis
    by (simp add: call_bound_def)
qed

text \<open>
  An entry of the mapping, called with keyword arguments none of which is named
  \<open>plugin\<close> or \<open>func_name\<close>, passes them unchanged, with the name it is stored under, to
  \<open>execute_function\<close> of a registered plugin that declares the name.
\<close>

lemma function_mapping_forwards:
  assumes "map_of (get_function_mapping self) name = Some entry"
    and "''plugin'' \<notin> fst ` set kwargs" and "''func_name'' \<notin> fst ` set kwargs"
  shows "call_bound entry kwargs = execute_function (bound_plugin entry) (VStr name) kwargs \<and>
         bound_plugin entry \<in> snd ` set (plugins self) \<and>
         name \<in> decl_name ` set (get_functions (bound_plugin entry))"
proof -
  from assms(1) obtain pd where
    found: "find (\<lambda>pd. decl_name (snd pd) = name) (rev (bindings self)) = Some pd"
    and entry: "entry = \<lparr>bound_plugin = fst pd, bound_func_name = decl_name (snd pd)\<rparr>"
    by (auto simp: function_mapping_lookup split: option.splits)
  from found have name: "decl_name (snd pd) = name" and mem: "pd \<in> set (bindings self)"
    by (auto dest: find_Some_member)
  from mem have "fst pd \<in> snd ` set (plugins self)" and "snd pd \<in> set (get_functions (fst pd))"
    by (force simp: bindings_def)+
  with name entry call_bound_plain [OF assms(2,3), of entry] show ?thesis
    by auto
qed

lemma widgets_foldl:
  "distinct (map get_name ps) \<Longrightarrow> set (map get_name ps) \<inter> fst ` set widgets = {} \<Longrightarrow>
   foldl (\<lambda>widgets plugin.
            (case plugin_get_widget_info plugin of
               None \<Rightarrow> widgets
             | Some widget_info \<Rightarrow>
                 if widget_info \<noteq> [] then AList.update (get_name plugin) widget_info widgets
                 else widgets))
     widgets ps =
   widgets @ List.map_filter (\<lambda>p. map_option (Pair (get_name p)) (descriptor_of p)) ps"
proof (induction ps arbitrary: widgets)
  case Nil
  show ?case by simp
next
  case (Cons p ps)
  have fresh: "get_name p \<notin> fst ` set widgets"
    using Cons.prems(2) by auto
  show ?case
  proof (cases "descriptor_of p")
    case None
    then have "(case plugin_get_widget_info p of
               None \<Rightarrow> widgets
             | Some widget_info \<Rightarrow>
                 if widget_info \<noteq> [] then AList.update (get_name p) widget_info widgets
                 else widgets) = widgets"
      by (auto simp: descriptor_of_def split: option.splits if_splits)
    moreover have "set (map get_name ps) \<inter> fst ` set widgets = {}" "distinct (map get_name ps)"
      using Cons.prems by auto
    ultimately show ?thesis
      using None by (simp add: Cons.IH)
  next
    case (Some w)
    then have "(case plugin_get_widget_info p of
               None \<Rightarrow> widgets
             | Some widget_info \<Rightarrow>
                 if widget_info \<noteq> [] then AList.update (get_name p) widget_info widgets
                 else widgets) = widgets @ [(get_name p, w)]"
      using fresh by (auto simp: descriptor_of_def update_fresh split: option.splits if_splits)
    moreover have "set (map get_name ps) \<inter> fst ` set (widgets @ [(get_name p, w)]) = {}"
      "distinct (map get_name ps)"
      using Cons.prems by auto
    ultimately show ?thesis
      using Some by (simp add: Cons.IH)
  qed
qed

section \<open>The example directory, evaluated\<close>

lemma example_discovery: "discover_plugins example_env = Inr example_candidates"
  by (simp add: discover_plugins_def example_env_def example_candidates_def suffix_to_prefix)

lemma example_outcomes:
  "candidate_outcome example_env ''alpha'' = Registered capability_A"
  "candidate_outcome example_env ''beta'' = Registered capability_B"
  "candidate_outcome example_env ''broken'' =
     LoadFailed (PyExc ''ModuleNotFoundError'' ''No module named plugins.broken'')"
  "candidate_outcome example_env ''ctor'' = LoadFailed (PyExc ''RuntimeError'' ''model not found'')"
  "candidate_outcome example_env ''helpers'' = NoConformingType"
  "candidate_outcome example_env ''later'' = Registered capability_A_later"
  "candidate_outcome example_env ''gamma'' = Registered capability_C"
  by (simp_all add: candidate_outcome_def example_env_def getmembers_def conforming_def)

lemma example_successes:
  "successes example_env example_candidates =
     [capability_A, capability_B, capability_A_later, capability_C]"
  by (simp add: successes_def example_candidates_def example_outcomes)

lemma example_registry_inv: "registry_inv (plugins example_manager)"
  by (simp add: registry_inv_def example_manager_def capability_A_def capability_B_def
        capability_C_def)

section \<open>Dispatch\<close>

text \<open>
  Claim C1. For every operation name that is not present in the dispatch mapping,
  dispatch of that name with any arguments returns the structured failure
  \<open>{"error": "unknown operation: <name>"}\<close> and does not raise: the result is a
  returned payload (\<open>Inr\<close>), whatever the registry and the arguments are.
\<close>

theorem dispatch_unknown_operation:
  "map_of (get_function_mapping self) name = None \<Longrightarrow>
   dispatch self name arguments =
     Inr (VDict [(''error'', VStr (''unknown operation: '' @ name))])"
  by (simp add: dispatch_def unknown_operation_def)

text \<open>
  The specification's example \<open>dispatch("nonexistent_op", {})\<close>, on the registry of A, B
  and C, whose mapping holds \<open>foo\<close> and \<open>bar\<close> only.
\<close>

theorem dispatch_unknown_operation_witness:
  "map_of (get_function_mapping example_manager) ''nonexistent_op'' = None \<and>
   dispatch example_manager ''nonexistent_op'' [] =
     Inr (VDict [(''error'', VStr ''unknown operation: nonexistent_op'')])"
proof -
  have absent: "map_of (get_function_mapping example_manager) ''nonexistent_op'' = None"
    by (simp add: get_function_mapping_def example_manager_def capability_A_def
          capability_B_def capability_C_def operation_def)
  show ?thesis
    using absent dispatch_unknown_operation [OF absent, of "[]"] by simp
qed

text \<open>
  Claim C4. For every operation name present in the dispatch mapping, invoking the mapped
  entry with an argument mapping forwards that argument mapping unchanged to the owning
  capability's \<open>execute_function\<close> with that same operation name and returns its result.
  The entries do bind their own pair (\<open>function_mapping_lookup\<close>), and arguments with
  no key \<open>plugin\<close> or \<open>func_name\<close> are forwarded unchanged
  (\<open>function_mapping_forwards\<close>). But the pair is bound as default values of two named
  parameters of the entry, so an argument mapping that holds one of these two keys
  rebinds it. On the registry of A, B and C, the entry stored under \<open>bar\<close> is B's;
  called with \<open>{"func_name": "foo", "x": 1}\<close> it runs B's \<open>foo\<close> with \<open>{"x": 1}\<close>,
  where forwarding would run B's \<open>bar\<close> with both arguments; called with
  \<open>{"plugin": "B"}\<close> it raises \<open>AttributeError\<close>.
\<close>

theorem bound_call_keyword_capture:
  "map_of (get_function_mapping example_manager) ''bar'' =
     Some \<lparr>bound_plugin = capability_B, bound_func_name = ''bar''\<rparr> \<and>
   call_bound \<lparr>bound_plugin = capability_B, bound_func_name = ''bar''\<rparr>
       [(''func_name'', VStr ''foo''), (''x'', VInt 1)] =
     Inr (VDict [(''plugin'', VStr ''B''), (''function_name'', VStr ''foo''),
                 (''kwargs'', VDict [(''x'', VInt 1)])]) \<and>
   execute_function capability_B (VStr ''bar'') [(''func_name'', VStr ''foo''), (''x'', VInt 1)] =
     Inr (VDict [(''plugin'', VStr ''B''), (''function_name'', VStr ''bar''),
                 (''kwargs'', VDict [(''func_name'', VStr ''foo''), (''x'', VInt 1)])]) \<and>
   call_bound \<lparr>bound_plugin = capability_B, bound_func_name = ''bar''\<rparr> [(''plugin'', VStr ''B'')] =
     Inl (NoAttribute ''execute_function'')"
  by (simp add: get_function_mapping_def example_manager_def call_bound_def echo_def
        capability_A_def capability_B_def capability_C_def operation_def)

section \<open>The catalog\<close>

text \<open>
  Claim C2, as amended. For every registry in which two capabilities each declare an
  operation with the same name, the catalog of \<open>get_all_functions\<close> is the concatenation
  of the capabilities' declaration lists in registry iteration order, so it contains both
  declarations, the earlier capability's before the later's: the name has at least two
  entries and none is overwritten.
\<close>

theorem catalog_keeps_every_declaration:
  assumes "plugins self = pre @ (ka, a) # mid @ (kb, b) # post"
    and "da \<in> set (get_functions a)" and "db \<in> set (get_functions b)"
    and "decl_name da = decl_name db"
  shows "get_all_functions self = concat (map (\<lambda>(k, p). get_functions p) (plugins self)) \<and>
         (\<exists>xs ys zs. get_all_functions self = xs @ da # ys @ db # zs) \<and>
         2 \<le> length (filter (\<lambda>d. decl_name d = decl_name da) (get_all_functions self))"
proof -
  obtain a1 a2 where a: "get_functions a = a1 @ da # a2"
    using assms(2) by (auto simp: in_set_conv_decomp)
  obtain b1 b2 where b: "get_functions b = b1 @ db # b2"
    using assms(3) by (auto simp: in_set_conv_decomp)
  let ?c = "\<lambda>es. concat (map (\<lambda>(k, p). get_functions p) es)"
  have split: "get_all_functions self =
          (?c pre @ a1) @ da # (a2 @ ?c mid @ b1) @ db # (b2 @ ?c post)"
    by (simp add: get_all_functions_concat assms(1) a b)
  then have "\<exists>xs ys zs. get_all_functions self = xs @ da # ys @ db # zs"
    by blast
  moreover have "2 \<le> length (filter (\<lambda>d. decl_name d = decl_name da) (get_all_functions self))"
    by (simp add: split assms(4))
  ultimately show ?thesis
    by (simp add: get_all_functions_concat)
qed

text \<open>The specification's scenario: A declares \<open>foo\<close>, B declares \<open>bar\<close> and \<open>foo\<close>.\<close>

theorem catalog_keeps_every_declaration_witness:
  "get_all_functions example_manager =
     concat (map (\<lambda>(k, p). get_functions p) (plugins example_manager)) \<and>
   (\<exists>xs ys zs. get_all_functions example_manager =
      xs @ operation ''foo'' ''foo of A'' # ys @ operation ''foo'' ''foo of B'' # zs) \<and>
   2 \<le> length (filter (\<lambda>d. decl_name d = decl_name (operation ''foo'' ''foo of A''))
                 (get_all_functions example_manager))"
proof -
  have "plugins example_manager =
          [] @ (''A'', capability_A) # [] @ (''B'', capability_B) # [(''C'', capability_C)]"
    by (simp add: example_manager_def)
  moreover have "operation ''foo'' ''foo of A'' \<in> set (get_functions capability_A)"
    by (simp add: capability_A_def)
  moreover have "operation ''foo'' ''foo of B'' \<in> set (get_functions capability_B)"
    by (simp add: capability_B_def)
  moreover have "decl_name (operation ''foo'' ''foo of A'') = decl_name (operation ''foo'' ''foo of B'')"
    by (simp add: operation_def)
  ultimately show ?thesis
    by (rule catalog_keeps_every_declaration)
qed

text \<open>
  Against C2 as stated (exactly one entry for the name, equal to the later capability's
  declaration): in that scenario the catalog holds \<open>foo\<close> twice, A's declaration first.
\<close>

theorem catalog_single_entry_counterexample:
  "get_all_functions example_manager =
     [operation ''foo'' ''foo of A'', operation ''bar'' ''bar of B'', operation ''foo'' ''foo of B''] \<and>
   length (filter (\<lambda>d. decl_name d = ''foo'') (get_all_functions example_manager)) = 2"
  by (simp add: get_all_functions_def example_manager_def capability_A_def capability_B_def
        capability_C_def operation_def)

section \<open>Invocation\<close>

text \<open>
  Claim C3. For every capability and every invocation of \<open>execute_function\<close> with any
  operation name and any argument mapping, the call returns a payload and no fault
  propagates as an exception. The private methods do turn their internal faults into
  \<open>{"error": ...}\<close> payloads, but \<open>execute_function\<close> calls them as
  \<open>self._method(**kwargs)\<close>, and binding the arguments happens before any \<open>try\<close>:
  \<open>translate_text\<close> without arguments, \<open>get_supported_languages\<close> with an argument and
  \<open>generate_qr_code\<close> without \<open>qr_type\<close> raise \<open>TypeError\<close>, whatever the method bodies
  are.
\<close>

theorem execute_function_raises_on_argument_mismatch:
  "TranslationPlugin_execute_function body ''translate_text'' [] =
     Inl (MissingArguments [''text'', ''target_language'']) \<and>
   TranslationPlugin_execute_function body ''get_supported_languages'' [(''verbose'', VBool True)] =
     Inl (UnexpectedKeyword ''verbose'') \<and>
   QRCodeGeneratorPlugin_execute_function body ''generate_qr_code'' [(''data'', VStr ''hello'')] =
     Inl (MissingArguments [''qr_type''])"
  by (simp add: TranslationPlugin_execute_function_def QRCodeGeneratorPlugin_execute_function_def
        call_method_def bind_arguments_def execute_function_signature_def method_signature_def)

text \<open>
  Claim C10. For every concrete plugin in this repository, calling \<open>execute_function\<close>
  with an operation name that is not among the plugin's declared functions and no extra
  keyword arguments returns exactly \<open>{"error": "Unknown function: <name>"}\<close> without
  raising, a payload that differs from the dispatcher's
  \<open>{"error": "unknown operation: <name>"}\<close>.
\<close>

theorem unknown_function_payload:
  "(function_name \<notin> set TranslationPlugin_function_names \<longrightarrow>
      TranslationPlugin_execute_function body function_name [] =
        Inr (VDict [(''error'', VStr (''Unknown function: '' @ function_name))])) \<and>
   (function_name \<notin> set QRCodeGeneratorPlugin_function_names \<longrightarrow>
      QRCodeGeneratorPlugin_execute_function body function_name [] =
        Inr (VDict [(''error'', VStr (''Unknown function: '' @ function_name))])) \<and>
   (function_name \<notin> set EngineeringCalculatorsPlugin_function_names \<longrightarrow>
      EngineeringCalculatorsPlugin_execute_function body function_name [] =
        Inr (VDict [(''error'', VStr (''Unknown function: '' @ function_name))])) \<and>
   (function_name \<notin> set DocumentAnalysisPlugin_function_names \<longrightarrow>
      DocumentAnalysisPlugin_execute_function body function_name [] =
        Inr (VDict [(''error'', VStr (''Unknown function: '' @ function_name))])) \<and>
   (function_name \<notin> set ImageGenerationPlugin_function_names \<longrightarrow>
      ImageGenerationPlugin_execute_function body function_name [] =
        Inr (VDict [(''error'', VStr (''Unknown function: '' @ function_name))])) \<and>
   VDict [(''error'', VStr (''Unknown function: '' @ function_name))] \<noteq>
     unknown_operation function_name"
proof -
  have bound: "bind_arguments execute_function_signature [] = Inr []"
    by (simp add: bind_arguments_def execute_function_signature_def)
  show ?thesis
    by (simp add: bound unknown_function_def unknown_operation_def
          TranslationPlugin_function_names_def TranslationPlugin_execute_function_def
          QRCodeGeneratorPlugin_function_names_def QRCodeGeneratorPlugin_execute_function_def
          EngineeringCalculatorsPlugin_function_names_def
          EngineeringCalculatorsPlugin_execute_function_def
          DocumentAnalysisPlugin_function_names_def DocumentAnalysisPlugin_execute_function_def
          ImageGenerationPlugin_function_names_def ImageGenerationPlugin_execute_function_def)
qed

text \<open>The name \<open>nonexistent_op\<close>, which no plugin declares, with method bodies that return \<open>None\<close>.\<close>

theorem unknown_function_payload_witness:
  "''nonexistent_op'' \<notin> set TranslationPlugin_function_names \<and>
   TranslationPlugin_execute_function (\<lambda>m kwargs. Inr VNone) ''nonexistent_op'' [] =
     Inr (VDict [(''error'', VStr ''Unknown function: nonexistent_op'')]) \<and>
   ''nonexistent_op'' \<notin> set QRCodeGeneratorPlugin_function_names \<and>
   QRCodeGeneratorPlugin_execute_function (\<lambda>m kwargs. Inr VNone) ''nonexistent_op'' [] =
     Inr (VDict [(''error'', VStr ''Unknown function: nonexistent_op'')]) \<and>
   ''nonexistent_op'' \<notin> set EngineeringCalculatorsPlugin_function_names \<and>
   EngineeringCalculatorsPlugin_execute_function (\<lambda>m kwargs. Inr VNone) ''nonexistent_op'' [] =
     Inr (VDict [(''error'', VStr ''Unknown function: nonexistent_op'')]) \<and>
   ''nonexistent_op'' \<notin> set DocumentAnalysisPlugin_function_names \<and>
   DocumentAnalysisPlugin_execute_function (\<lambda>m kwargs. Inr VNone) ''nonexistent_op'' [] =
     Inr (VDict [(''error'', VStr ''Unknown function: nonexistent_op'')]) \<and>
   ''nonexistent_op'' \<notin> set ImageGenerationPlugin_function_names \<and>
   ImageGenerationPlugin_execute_function (\<lambda>m kwargs. Inr VNone) ''nonexistent_op'' [] =
     Inr (VDict [(''error'', VStr ''Unknown function: nonexistent_op'')]) \<and>
   VDict [(''error'', VStr ''Unknown function: nonexistent_op'')] \<noteq>
     VDict [(''error'', VStr ''unknown operation: nonexistent_op'')]"
proof -
  have names:
    "''nonexistent_op'' \<notin> set TranslationPlugin_function_names"
    "''nonexistent_op'' \<notin> set QRCodeGeneratorPlugin_function_names"
    "''nonexistent_op'' \<notin> set EngineeringCalculatorsPlugin_function_names"
    "''nonexistent_op'' \<notin> set DocumentAnalysisPlugin_function_names"
    "''nonexistent_op'' \<notin> set ImageGenerationPlugin_function_names"
    by (simp_all add: TranslationPlugin_function_names_def QRCodeGeneratorPlugin_function_names_def
          EngineeringCalculatorsPlugin_function_names_def DocumentAnalysisPlugin_function_names_def
          ImageGenerationPlugin_function_names_def)
  show ?thesis
    using names unknown_function_payload [of "''nonexistent_op''" "\<lambda>m kwargs. Inr VNone"]
    by (simp add: unknown_operation_def)
qed

section \<open>Loading\<close>

text \<open>
  Claim C5, as amended. For every sequence of discovered candidates, a candidate whose
  import or whose constructor raises is caught and reported with the candidate identifier
  and the cause, a candidate whose module holds no conforming type is passed over without
  any line, and the load continues with the next candidate. Afterwards the registry is the
  registry before with each of the N successful capabilities stored under its identity, in
  load order, a later one replacing an earlier one of the same identity; so a load into
  an empty registry leaves exactly the N successful capabilities when their identities
  are pairwise distinct.
\<close>

theorem load_plugins_isolates_failures:
  assumes "discover_plugins env = Inr plugin_names"
  shows "load_plugins env self =
           Inr (self\<lparr>plugins := foldl register (plugins self) (successes env plugin_names),
                     printed := printed self @ load_log env plugin_names\<rparr>) \<and>
         (distinct (map get_name (successes env plugin_names)) \<longrightarrow>
            foldl register [] (successes env plugin_names) =
              map (\<lambda>p. (get_name p, p)) (successes env plugin_names))"
proof -
  have "foldl register [] (successes env plugin_names) =
          map (\<lambda>p. (get_name p, p)) (successes env plugin_names)"
    if "distinct (map get_name (successes env plugin_names))"
    using foldl_register_fresh [OF that, of "[]"] by simp
  then show ?thesis
    by (simp add: load_plugins_result [OF assms])
qed

text \<open>
  The specification's example: three candidates, one throws during construction, and the
  registry holds the other two.
\<close>

theorem load_plugins_isolates_failures_witness:
  "discover_plugins three_candidates_env = Inr [''alpha'', ''ctor'', ''beta''] \<and>
   successes three_candidates_env [''alpha'', ''ctor'', ''beta''] = [capability_A, capability_B] \<and>
   distinct (map get_name [capability_A, capability_B]) \<and>
   load_plugins three_candidates_env PluginManager_init =
     Inr \<lparr>plugins = [(''A'', capability_A), (''B'', capability_B)],
          printed = [''Loaded plugin: A'', ''Failed to load plugin ctor: model not found'',
                     ''Loaded plugin: B'']\<rparr>"
proof -
  have discovery: "discover_plugins three_candidates_env = Inr [''alpha'', ''ctor'', ''beta'']"
    by (simp add: discover_plugins_def three_candidates_env_def example_env_def suffix_to_prefix)
  have outcomes:
    "candidate_outcome three_candidates_env ''alpha'' = Registered capability_A"
    "candidate_outcome three_candidates_env ''ctor'' =
       LoadFailed (PyExc ''RuntimeError'' ''model not found'')"
    "candidate_outcome three_candidates_env ''beta'' = Registered capability_B"
    by (simp_all add: candidate_outcome_def three_candidates_env_def example_env_def
          getmembers_def conforming_def)
  have loaded: "successes three_candidates_env [''alpha'', ''ctor'', ''beta''] =
                  [capability_A, capability_B]"
    by (simp add: successes_def outcomes)
  have log: "load_log three_candidates_env [''alpha'', ''ctor'', ''beta''] =
               [''Loaded plugin: '' @ get_name capability_A,
                ''Failed to load plugin ctor: model not found'',
                ''Loaded plugin: '' @ get_name capability_B]"
    by (simp add: load_log_def outcomes)
  have names: "get_name capability_A = ''A''" "get_name capability_B = ''B''"
    by (simp_all add: capability_A_def capability_B_def)
  have result: "load_plugins three_candidates_env PluginManager_init =
     Inr \<lparr>plugins = [(''A'', capability_A), (''B'', capability_B)],
          printed = [''Loaded plugin: A'', ''Failed to load plugin ctor: model not found'',
                     ''Loaded plugin: B'']\<rparr>"
    using load_plugins_isolates_failures [OF discovery, of PluginManager_init]
    by (simp add: loaded log names PluginManager_init_def register_def)
  have "distinct (map get_name [capability_A, capability_B])"
    by (simp add: names)
  with discovery loaded result show ?thesis
    by simp
qed

text \<open>
  Against C5 as stated: of the seven candidates of the example directory four load
  successfully, yet the registry afterwards holds three capabilities (the later capability
  named \<open>A\<close> replaced the earlier one); and \<open>helpers\<close> fails for non-conformance, yet no
  printed line names it.
\<close>

theorem load_plugins_counterexample:
  "load_plugins example_env PluginManager_init =
     Inr \<lparr>plugins = [(''A'', capability_A_later), (''B'', capability_B), (''C'', capability_C)],
          printed = [''Loaded plugin: A'', ''Loaded plugin: B'',
                     ''Failed to load plugin broken: No module named plugins.broken'',
                     ''Failed to load plugin ctor: model not found'',
                     ''Loaded plugin: A'', ''Loaded plugin: C'']\<rparr> \<and>
   length (successes example_env example_candidates) = 4 \<and>
   candidate_outcome example_env ''helpers'' = NoConformingType"
proof -
  have "load_plugins example_env PluginManager_init =
     Inr \<lparr>plugins = [(''A'', capability_A_later), (''B'', capability_B), (''C'', capability_C)],
          printed = [''Loaded plugin: A'', ''Loaded plugin: B'',
                     ''Failed to load plugin broken: No module named plugins.broken'',
                     ''Failed to load plugin ctor: model not found'',
                     ''Loaded plugin: A'', ''Loaded plugin: C'']\<rparr>"
    unfolding load_plugins_def example_discovery example_candidates_def
    by (simp add: load_plugin_def example_env_def getmembers_def PluginManager_init_def
          capability_A_def capability_B_def capability_C_def capability_A_later_def)
  then show ?thesis
    by (simp add: example_successes example_outcomes)
qed

text \<open>
  Claim C6. For every load in which two capabilities report the same identity, after the
  load the registry's lookup of that identity returns the instance registered later, and
  the earlier instance is no longer reachable through the registry: the later instance is
  the only registered instance that reports the identity. The load starts from any
  registry the loader can have built; \<open>b\<close> is the last successful capability that reports
  the identity \<open>n\<close>, \<open>a\<close> any earlier one.
\<close>

theorem later_registration_wins:
  assumes "discover_plugins env = Inr plugin_names"
    and "successes env plugin_names = earlier @ a # between @ b # later"
    and "get_name a = n" and "get_name b = n"
    and "\<forall>p \<in> set later. get_name p \<noteq> n"
    and "registry_inv (plugins self)"
  shows "\<exists>self'. load_plugins env self = Inr self' \<and>
           map_of (plugins self') n = Some b \<and>
           filter (\<lambda>p. get_name p = n) (map snd (plugins self')) = [b]"
proof -
  let ?reg = "foldl register (plugins self) (successes env plugin_names)"
  have "find (\<lambda>p. get_name p = n) (rev later) = None"
    using assms(5) by (simp add: find_None_iff)
  then have "find (\<lambda>p. get_name p = n) (rev (successes env plugin_names)) = Some b"
    by (simp add: assms(2) assms(4) find_append_split)
  then have get: "map_of ?reg n = Some b"
    by (simp add: map_of_foldl_register)
  have "registry_inv ?reg"
    using assms(6) by (rule registry_inv_foldl_register)
  then have "filter (\<lambda>p. get_name p = n) (map snd ?reg) = [b]"
    using get by (rule registry_only_instance)
  with get show ?thesis
    by (simp add: load_plugins_result [OF assms(1)])
qed

text \<open>
  In the example directory \<open>alpha\<close> and \<open>later\<close> both load a capability named \<open>A\<close>, with
  \<open>beta\<close> between them and \<open>gamma\<close> after them.
\<close>

theorem later_registration_wins_witness:
  "successes example_env example_candidates =
     [] @ capability_A # [capability_B] @ capability_A_later # [capability_C] \<and>
   get_name capability_A = ''A'' \<and> get_name capability_A_later = ''A'' \<and>
   capability_A \<noteq> capability_A_later \<and>
   (\<exists>self'. load_plugins example_env PluginManager_init = Inr self' \<and>
      map_of (plugins self') ''A'' = Some capability_A_later \<and>
      filter (\<lambda>p. get_name p = ''A'') (map snd (plugins self')) = [capability_A_later])"
proof -
  have split: "successes example_env example_candidates =
     [] @ capability_A # [capability_B] @ capability_A_later # [capability_C]"
    by (simp add: example_successes)
  have a: "get_name capability_A = ''A''" and b: "get_name capability_A_later = ''A''"
    by (simp_all add: capability_A_def capability_A_later_def)
  have later: "\<forall>p \<in> set [capability_C]. get_name p \<noteq> ''A''"
    by (simp add: capability_C_def)
  have start: "registry_inv (plugins PluginManager_init)"
    by (simp add: registry_inv_def PluginManager_init_def)
  have differ: "capability_A \<noteq> capability_A_later"
    by (simp add: capability_A_def capability_A_later_def)
  from later_registration_wins [OF example_discovery split a b later start] split a b differ
  show ?thesis
    by blast
qed

text \<open>
  Claim C7. For every candidate unit containing more than one type conforming to the
  capability contract, the loader instantiates exactly one type: the first conforming
  type in the enumeration order of the unit's members, which is the order of the member
  names and so does not depend on how the module lists them; every later conforming type
  is silently ignored. Here \<open>cls\<close> is the conforming member of least name; loading the
  unit is instantiating \<open>cls\<close> and nothing else: its instance is registered and
  reported, or its exception is the candidate's failure, and no other member leaves a
  trace in the registry or in the output.
\<close>

theorem first_conforming_type_only:
  assumes "import_module env (''plugins.'' @ plugin_name) = Inr module"
    and "distinct (map fst module)"
    and "(n, cls) \<in> set module" and "conforming cls"
    and "\<forall>(n', obj) \<in> set module. conforming obj \<longrightarrow> n \<le> n'"
  shows "load_plugin env self plugin_name =
           (case instantiate cls of
              Inl e \<Rightarrow>
                self\<lparr>printed := printed self @
                        [''Failed to load plugin '' @ plugin_name @ '': '' @ exc_str e]\<rparr>
            | Inr plugin_instance \<Rightarrow>
                self\<lparr>plugins := AList.update (get_name plugin_instance) plugin_instance (plugins self),
                     printed := printed self @ [''Loaded plugin: '' @ get_name plugin_instance]\<rparr>)"
proof -
  have "find (\<lambda>(name, obj). conforming obj) (getmembers module) = Some (n, cls)"
    using assms(2-5) by (rule getmembers_first_conforming)
  with assms(1) show ?thesis
    by (simp add: load_plugin_def load_members_find register_def split: sum.splits)
qed

text \<open>
  Module \<open>beta\<close> defines \<open>Zulu\<close> (capability C) before \<open>Beta\<close> (capability B); both
  conform, \<open>Beta\<close> comes first by name, and only B is loaded.
\<close>

theorem first_conforming_type_only_witness:
  "import_module example_env (''plugins.'' @ ''beta'') =
     Inr [(''PluginBase'', PluginBase), (''Zulu'', PluginSubclass (Inr capability_C)),
          (''Helper'', OtherClass), (''Beta'', PluginSubclass (Inr capability_B))] \<and>
   conforming (PluginSubclass (Inr capability_B)) \<and>
   conforming (PluginSubclass (Inr capability_C)) \<and>
   load_plugin example_env PluginManager_init ''beta'' =
     \<lparr>plugins = [(''B'', capability_B)], printed = [''Loaded plugin: B'']\<rparr>"
proof -
  let ?module = "[(''PluginBase'', PluginBase), (''Zulu'', PluginSubclass (Inr capability_C)),
          (''Helper'', OtherClass), (''Beta'', PluginSubclass (Inr capability_B))]"
  have imported: "import_module example_env (''plugins.'' @ ''beta'') = Inr ?module"
    by (simp add: example_env_def)
  have names: "distinct (map fst ?module)"
    by simp
  have member: "(''Beta'', PluginSubclass (Inr capability_B)) \<in> set ?module"
    by simp
  have b: "conforming (PluginSubclass (Inr capability_B))"
    and c: "conforming (PluginSubclass (Inr capability_C))"
    by (simp_all add: conforming_def)
  have least: "\<forall>(n', obj) \<in> set ?module. conforming obj \<longrightarrow> ''Beta'' \<le> n'"
    by (simp add: conforming_def)
  have "load_plugin example_env PluginManager_init ''beta'' =
          \<lparr>plugins = [(''B'', capability_B)], printed = [''Loaded plugin: B'']\<rparr>"
    using first_conforming_type_only [OF imported names member b least, of PluginManager_init]
    by (simp add: PluginManager_init_def capability_B_def)
  with imported b c show ?thesis
    by blast
qed

text \<open>
  Claim C9. After any sequence of loads, every key of the registry equals the identity
  reported by the instance stored under it: for every key \<open>k\<close> of \<open>self.plugins\<close>,
  \<open>plugins[k].get_name() == k\<close>.
\<close>

theorem registry_keys_are_names:
  "map_of (plugins (after_loads envs)) k = Some p \<Longrightarrow> get_name p = k"
  using registry_inv_after_loads [of envs]
  by (auto simp: registry_inv_def dest!: map_of_SomeD)

text \<open>Two loads of the example directory in a row; the key \<open>A\<close> holds the later capability.\<close>

theorem registry_keys_are_names_witness:
  "map_of (plugins (after_loads [example_env, example_env])) ''A'' = Some capability_A_later \<and>
   get_name capability_A_later = ''A''"
proof -
  have "map_of (plugins (after_loads [example_env, example_env])) ''A'' = Some capability_A_later"
    by (simp add: after_loads_def run_load_def load_plugins_result [OF example_discovery]
          example_successes register_def PluginManager_init_def capability_A_def capability_B_def
          capability_C_def capability_A_later_def)
  then show ?thesis
    using registry_keys_are_names [of "[example_env, example_env]" "''A''" capability_A_later]
    by simp
qed

section \<open>Widgets\<close>

text \<open>
  Claim C8. For every registry, the widget aggregation returns a mapping that contains,
  keyed by capability identity, exactly the presentation descriptors of those capabilities
  whose \<open>get_widget_info\<close> returns a descriptor; a capability returning nothing is omitted
  with no placeholder entry, so the mapping has as many entries as there are capabilities
  with a descriptor (one, for a registry of three where only one defines presentation
  info). The registry is any the loader can have built; the entries come in registry
  order.
\<close>

theorem widgets_are_the_descriptors:
  assumes "registry_inv (plugins self)"
  shows "get_widget_info self =
           List.map_filter (\<lambda>(k, p). map_option (Pair k) (descriptor_of p)) (plugins self) \<and>
         length (get_widget_info self) =
           length (filter (\<lambda>(k, p). descriptor_of p \<noteq> None) (plugins self))"
proof -
  have names: "distinct (map get_name (map snd (plugins self)))"
    and keys: "map (\<lambda>(k, p). (get_name p, p)) (plugins self) = plugins self"
    using registry_inv_names [OF assms] by simp_all
  have "get_widget_info self =
          List.map_filter (\<lambda>p. map_option (Pair (get_name p)) (descriptor_of p))
            (map snd (plugins self))"
    unfolding get_widget_info_def
    using widgets_foldl [OF names, of "[]"] by simp
  also have "\<dots> = List.map_filter (\<lambda>(k, p). map_option (Pair k) (descriptor_of p))
                     (map (\<lambda>(k, p). (get_name p, p)) (plugins self))"
    by (simp add: map_filter_of_map case_prod_unfold)
  finally have eq: "get_widget_info self =
      List.map_filter (\<lambda>(k, p). map_option (Pair k) (descriptor_of p)) (plugins self)"
    by (simp only: keys)
  have "length (List.map_filter (\<lambda>(k, p). map_option (Pair k) (descriptor_of p)) (plugins self)) =
        length (filter (\<lambda>(k, p). descriptor_of p \<noteq> None) (plugins self))"
    by (simp add: length_map_filter case_prod_unfold)
  with eq show ?thesis by simp
qed

text \<open>The registry of A, B and C, of which only B has a widget.\<close>

theorem widgets_are_the_descriptors_witness:
  "registry_inv (plugins example_manager) \<and>
   get_widget_info example_manager =
     [(''B'', [(''component_name'', VStr ''BWidget''), (''css_file'', VStr ''BWidget.css''),
               (''socket_events'', VList [VStr ''b_update''])])] \<and>
   length (get_widget_info example_manager) = 1"
proof -
  have "get_widget_info example_manager =
     [(''B'', [(''component_name'', VStr ''BWidget''), (''css_file'', VStr ''BWidget.css''),
               (''socket_events'', VList [VStr ''b_update''])])]"
    using widgets_are_the_descriptors [OF example_registry_inv]
    by (simp add: example_manager_def descriptor_of_def capability_A_def capability_B_def
          capability_C_def)
  with example_registry_inv show ?thesis
    by simp
qed

end
